theory Spec2Isabelle
  imports Main "HOL-Library.AList"
begin

section \<open>Deployment environments of a repository: the configuration\<close>

text \<open>
  The development follows \<^verbatim>\<open>asfyaml/feature/github/deployment_environments.py\<close>.
  The desired state is the value of the key \<^verbatim>\<open>environments\<close> of the parsed YAML: a
  dictionary from environment names to environment configurations. A Python dictionary
  keeps its keys in insertion order and has no duplicate key, so it is an association
  list here; \<open>distinct (map fst environments)\<close> says that it is a dictionary.
  A key that may be absent is an \<open>option\<close> field: \<open>None\<close> is the absent key, which is
  what \<^verbatim>\<open>dict.get(key)\<close> returns for it.
\<close>

text \<open>A reviewer's \<^verbatim>\<open>id\<close> is a number or a user name (\<^verbatim>\<open>isinstance(username, int)\<close>).\<close>

datatype reviewer_ident = UserId int | Username string

record reviewer =
  reviewer_type :: string
  reviewer_id :: reviewer_ident

record policy =
  policy_name :: string

record deployment_branch_policy =
  protected_branches :: "bool option"
  custom_branch_policies :: "bool option"
  policies :: "policy list option"

record env_config =
  required_reviewers :: "reviewer list option"
  prevent_self_review :: "bool option"
  wait_timer :: "int option"
  deployment_branch_policy :: "deployment_branch_policy option"

type_synonym environments = "(string \<times> env_config) list"

text \<open>One entry of the validator's result: \<^verbatim>\<open>{"env": env, "error": message}\<close>.\<close>

record config_error =
  env :: string
  error :: string

subsection \<open>Python's truth values and \<^verbatim>\<open>dict.get\<close>\<close>

text \<open>
  \<^verbatim>\<open>env_config.get("deployment_branch_policy", {}).get(key)\<close>: the value of \<open>key\<close> in the
  branch policy of the configuration, \<open>None\<close> when either key is absent.
\<close>

definition branch_policy_get :: "env_config \<Rightarrow> (deployment_branch_policy \<Rightarrow> 'a option) \<Rightarrow> 'a option" where
  "branch_policy_get env_config key =
     (case deployment_branch_policy env_config of None \<Rightarrow> None | Some p \<Rightarrow> key p)"

text \<open>The truth value of an optional flag: \<^verbatim>\<open>None\<close> and \<^verbatim>\<open>False\<close> are false.\<close>

definition truthy_flag :: "bool option \<Rightarrow> bool" where
  "truthy_flag b = (case b of None \<Rightarrow> False | Some v \<Rightarrow> v)"

text \<open>The truth value of an optional list: \<^verbatim>\<open>None\<close> and \<^verbatim>\<open>[]\<close> are false.\<close>

definition truthy_list :: "'a list option \<Rightarrow> bool" where
  "truthy_list xs = (case xs of None \<Rightarrow> False | Some ys \<Rightarrow> ys \<noteq> [])"

text \<open>\<^verbatim>\<open>d.get(key, default)\<close>.\<close>

definition get_default :: "'a option \<Rightarrow> 'a \<Rightarrow> 'a" where
  "get_default v d = (case v of None \<Rightarrow> d | Some x \<Rightarrow> x)"

subsection \<open>The validator\<close>

definition msg_reviewers_missing :: string where
  "msg_reviewers_missing = ''required_reviewers is missing, minimum 1 reviewer is required''"

definition msg_reviewers_too_many :: string where
  "msg_reviewers_too_many = ''required_reviewers cannot be more than 6 reviewers''"

definition msg_both_modes :: string where
  "msg_both_modes =
     ''protected_branches and custom_branch_policies cannot be enabled at the same time, set one of them to false''"

definition msg_policies_missing :: string where
  "msg_policies_missing =
     ''Policies is missing, when custom_branch_policies is enabled, minimum 1 policy is required''"

text \<open>
  The body of the loop of \<^verbatim>\<open>validate_environment_configs\<close>: four tests in the order of the
  source, each appending one entry to \<^verbatim>\<open>environment_config_errors\<close>.
\<close>

definition validate_step :: "string \<times> env_config \<Rightarrow> config_error list \<Rightarrow> config_error list" where
  "validate_step item errors0 =
     (let (env_name, env_config) = item;
          errors1 =
            (if \<not> truthy_list (required_reviewers env_config)
             then errors0 @ [\<lparr>env = env_name, error = msg_reviewers_missing\<rparr>] else errors0);
          errors2 =
            (if length (get_default (required_reviewers env_config) []) > 6
             then errors1 @ [\<lparr>env = env_name, error = msg_reviewers_too_many\<rparr>] else errors1);
          is_custom_branch_policies = branch_policy_get env_config custom_branch_policies;
          is_protected_branches = branch_policy_get env_config protected_branches;
          errors3 =
            (if truthy_flag is_custom_branch_policies \<and> truthy_flag is_protected_branches
             then errors2 @ [\<lparr>env = env_name, error = msg_both_modes\<rparr>] else errors2);
          errors4 =
            (if truthy_flag is_custom_branch_policies
                \<and> \<not> truthy_list (branch_policy_get env_config policies)
             then errors3 @ [\<lparr>env = env_name, error = msg_policies_missing\<rparr>] else errors3)
      in errors4)"

text \<open>
  \<^verbatim>\<open>validate_environment_configs(environments)\<close>: the loop over \<^verbatim>\<open>environments.items()\<close>,
  starting from the empty list. Nothing in it can raise on a configuration of the
  types above, so the result is the list itself.
\<close>

definition validate_environment_configs :: "environments \<Rightarrow> config_error list" where
  "validate_environment_configs environments = fold validate_step environments []"

subsection \<open>The rules of the validator, as the specification words them\<close>

text \<open>
  The four rules of section 4.1 of the specification, each independent: (a)
  required_reviewers present and non-empty; (b) at most 6 reviewers; (c) not both
  protected_branches and custom_branch_policies; (d) with custom_branch_policies,
  policies present and non-empty. \<open>violates rule c\<close> says that configuration \<open>c\<close> breaks
  the rule.
\<close>

datatype rule = ReviewersPresent | ReviewersAtMostSix | ModesExclusive | PoliciesPresent

definition all_rules :: "rule list" where
  "all_rules = [ReviewersPresent, ReviewersAtMostSix, ModesExclusive, PoliciesPresent]"

fun flag_set :: "env_config \<Rightarrow> (deployment_branch_policy \<Rightarrow> bool option) \<Rightarrow> bool" where
  "flag_set c flag =
     (case deployment_branch_policy c of None \<Rightarrow> False | Some p \<Rightarrow> flag p = Some True)"

fun violates :: "rule \<Rightarrow> env_config \<Rightarrow> bool" where
  "violates ReviewersPresent c =
     (case required_reviewers c of None \<Rightarrow> True | Some rs \<Rightarrow> rs = [])"
| "violates ReviewersAtMostSix c =
     (case required_reviewers c of None \<Rightarrow> False | Some rs \<Rightarrow> 6 < length rs)"
| "violates ModesExclusive c =
     (flag_set c protected_branches \<and> flag_set c custom_branch_policies)"
| "violates PoliciesPresent c =
     (flag_set c custom_branch_policies \<and>
      (case deployment_branch_policy c of None \<Rightarrow> True
       | Some p \<Rightarrow> (case policies p of None \<Rightarrow> True | Some ps \<Rightarrow> ps = [])))"

fun rule_message :: "rule \<Rightarrow> string" where
  "rule_message ReviewersPresent = msg_reviewers_missing"
| "rule_message ReviewersAtMostSix = msg_reviewers_too_many"
| "rule_message ModesExclusive = msg_both_modes"
| "rule_message PoliciesPresent = msg_policies_missing"

text \<open>One entry per violated rule of one environment, then of all of them in order.\<close>

definition violations_of :: "string \<times> env_config \<Rightarrow> config_error list" where
  "violations_of item =
     map (\<lambda>r. \<lparr>env = fst item, error = rule_message r\<rparr>)
         (filter (\<lambda>r. violates r (snd item)) all_rules)"

definition all_violations :: "environments \<Rightarrow> config_error list" where
  "all_violations environments = concat (map violations_of environments)"


section \<open>The remote repository and the calls made to it\<close>

text \<open>
  Exceptions are values. The source raises \<^verbatim>\<open>Exception\<close> with a formatted message in
  two places; the constructors keep what the message is formatted from.
\<close>

datatype exn =
    InvalidEnvironmentConfigurations "config_error list"
      \<comment> \<open>\<^verbatim>\<open>"Invalid Environment Configurations Found: %s" % config_environment_errors\<close>\<close>
  | RequestError "string option" int
      \<comment> \<open>\<^verbatim>\<open>'[GitHub] Request error with message: "%s". (status code: %s)'\<close>\<close>
  | GithubException int
      \<comment> \<open>raised inside a PyGithub call, with the status of the response\<close>
  | TypeError
      \<comment> \<open>iterating over \<^verbatim>\<open>None\<close>\<close>
  | AttributeError
      \<comment> \<open>\<^verbatim>\<open>None.get\<close>\<close>
  | OSError
      \<comment> \<open>\<^verbatim>\<open>open(GH_TOKEN_FILE)\<close> on an unreadable file\<close>

text \<open>\<^verbatim>\<open>ReviewerParams(type_, id_)\<close> and \<^verbatim>\<open>EnvironmentDeploymentBranchPolicyParams\<close>.\<close>

record reviewer_params =
  params_type :: string
  params_id :: int

record branch_policy_params =
  params_protected_branches :: bool
  params_custom_branch_policies :: bool

text \<open>
  What the source reads of a response of \<^verbatim>\<open>requests\<close>: its status code and the
  \<^verbatim>\<open>message\<close> of its JSON body (the body is a JSON object, as the GitHub REST API
  answers; \<open>None\<close> is a body without that key).
\<close>

record response =
  status_code :: int
  json_message :: "string option"

text \<open>One entry of \<^verbatim>\<open>branch_policies\<close> in the answer to the policy listing.\<close>

record remote_policy =
  remote_policy_id :: int
  remote_policy_name :: string

text \<open>
  The remote side is a parameter: a state of any type \<open>'s\<close> and one handler for each
  call the source makes, through \<^verbatim>\<open>gh_session\<close> (\<open>get_user\<close>), through \<^verbatim>\<open>gh_repo\<close>
  (\<open>create_environment\<close>, \<open>get_environments\<close>, \<open>delete_environment\<close>) and through
  \<^verbatim>\<open>requests\<close> (\<open>post\<close>, \<open>get\<close>, \<open>delete\<close> on the deployment-branch-policies URL of a
  repository and an environment). A PyGithub call returns or raises; a \<^verbatim>\<open>requests\<close> call
  returns a response. The URL is determined by the repository name, the environment
  name (percent-encoded, which loses nothing) and, for a deletion, the policy id, so
  the handlers take these; the authorisation header is the same in every request of a
  run and is left out. \<open>requests_get\<close> answers with the \<^verbatim>\<open>branch_policies\<close> entry of the
  parsed body, \<open>None\<close> when the body has none.
\<close>

record 's remote =
  get_user :: "string \<Rightarrow> 's \<Rightarrow> (exn + int) \<times> 's"
  create_environment ::
    "string \<Rightarrow> int \<Rightarrow> reviewer_params list \<Rightarrow> branch_policy_params \<Rightarrow> 's \<Rightarrow> (exn + unit) \<times> 's"
  get_environments :: "'s \<Rightarrow> (exn + string list) \<times> 's"
  delete_environment :: "string \<Rightarrow> 's \<Rightarrow> (exn + unit) \<times> 's"
  requests_post :: "string \<Rightarrow> string \<Rightarrow> policy \<Rightarrow> 's \<Rightarrow> response \<times> 's"
  requests_get :: "string \<Rightarrow> string \<Rightarrow> 's \<Rightarrow> remote_policy list option \<times> 's"
  requests_delete :: "string \<Rightarrow> string \<Rightarrow> int \<Rightarrow> 's \<Rightarrow> response \<times> 's"

text \<open>
  Every call is recorded with its arguments and its answer, in the order in which it
  is made, as a recording transport does in a test. The progress lines that the source
  prints are not modelled.
\<close>

datatype event =
    GetUser string "exn + int"
  | CreateEnvironment string int "reviewer_params list" branch_policy_params "exn + unit"
  | GetEnvironments "exn + string list"
  | DeleteEnvironment string "exn + unit"
  | PostBranchPolicy string string policy response
  | GetBranchPolicies string string "remote_policy list option"
  | DeleteBranchPolicy string string int response

type_synonym 's world = "'s \<times> event list"

definition call_get_user :: "'s remote \<Rightarrow> string \<Rightarrow> 's world \<Rightarrow> (exn + int) \<times> 's world" where
  "call_get_user r login w =
     (case get_user r login (fst w) of
        (res, s) \<Rightarrow> (res, (s, snd w @ [GetUser login res])))"

definition call_create_environment ::
  "'s remote \<Rightarrow> string \<Rightarrow> int \<Rightarrow> reviewer_params list \<Rightarrow> branch_policy_params \<Rightarrow> 's world
     \<Rightarrow> (exn + unit) \<times> 's world" where
  "call_create_environment r environment_name timer reviewers branch_policy w =
     (case create_environment r environment_name timer reviewers branch_policy (fst w) of
        (res, s) \<Rightarrow>
          (res, (s, snd w @ [CreateEnvironment environment_name timer reviewers branch_policy res])))"

definition call_get_environments :: "'s remote \<Rightarrow> 's world \<Rightarrow> (exn + string list) \<times> 's world" where
  "call_get_environments r w =
     (case get_environments r (fst w) of
        (res, s) \<Rightarrow> (res, (s, snd w @ [GetEnvironments res])))"

definition call_delete_environment :: "'s remote \<Rightarrow> string \<Rightarrow> 's world \<Rightarrow> (exn + unit) \<times> 's world" where
  "call_delete_environment r environment_name w =
     (case delete_environment r environment_name (fst w) of
        (res, s) \<Rightarrow> (res, (s, snd w @ [DeleteEnvironment environment_name res])))"

definition call_requests_post ::
  "'s remote \<Rightarrow> string \<Rightarrow> string \<Rightarrow> policy \<Rightarrow> 's world \<Rightarrow> response \<times> 's world" where
  "call_requests_post r repo_name env_name body w =
     (case requests_post r repo_name env_name body (fst w) of
        (res, s) \<Rightarrow> (res, (s, snd w @ [PostBranchPolicy repo_name env_name body res])))"

definition call_requests_get ::
  "'s remote \<Rightarrow> string \<Rightarrow> string \<Rightarrow> 's world \<Rightarrow> remote_policy list option \<times> 's world" where
  "call_requests_get r repo_name env_name w =
     (case requests_get r repo_name env_name (fst w) of
        (res, s) \<Rightarrow> (res, (s, snd w @ [GetBranchPolicies repo_name env_name res])))"

definition call_requests_delete ::
  "'s remote \<Rightarrow> string \<Rightarrow> string \<Rightarrow> int \<Rightarrow> 's world \<Rightarrow> response \<times> 's world" where
  "call_requests_delete r repo_name env_name pid w =
     (case requests_delete r repo_name env_name pid (fst w) of
        (res, s) \<Rightarrow> (res, (s, snd w @ [DeleteBranchPolicy repo_name env_name pid res])))"

section \<open>The operations\<close>

subsection \<open>Environment upsert\<close>

text \<open>\<^verbatim>\<open>get_user_id\<close>: a number is returned as it is, a user name is looked up.\<close>

definition get_user_id :: "'s remote \<Rightarrow> reviewer_ident \<Rightarrow> 's world \<Rightarrow> (exn + int) \<times> 's world" where
  "get_user_id r username w =
     (case username of
        UserId n \<Rightarrow> (Inr n, w)
      | Username login \<Rightarrow> call_get_user r login w)"

text \<open>
  The list comprehension \<^verbatim>\<open>required_reviewers_with_id\<close>: one \<^verbatim>\<open>ReviewerParams\<close> for each
  reviewer, in order; an exception of a lookup ends it.
\<close>

fun required_reviewers_with_id ::
  "'s remote \<Rightarrow> reviewer list \<Rightarrow> 's world \<Rightarrow> (exn + reviewer_params list) \<times> 's world" where
  "required_reviewers_with_id r [] w = (Inr [], w)"
| "required_reviewers_with_id r (reviewer # rest) w =
     (case get_user_id r (reviewer_id reviewer) w of
        (Inl e, w1) \<Rightarrow> (Inl e, w1)
      | (Inr uid, w1) \<Rightarrow>
          (case required_reviewers_with_id r rest w1 of
             (Inl e, w2) \<Rightarrow> (Inl e, w2)
           | (Inr params, w2) \<Rightarrow>
               (Inr (\<lparr>params_type = reviewer_type reviewer, params_id = uid\<rparr> # params), w2)))"

text \<open>
  The \<^verbatim>\<open>EnvironmentDeploymentBranchPolicyParams\<close> of lines 64 to 67: an absent flag
  counts as \<^verbatim>\<open>True\<close> for \<^verbatim>\<open>protected_branches\<close> and as \<^verbatim>\<open>False\<close> for
  \<^verbatim>\<open>custom_branch_policies\<close>.

  \<^verbatim>\<open>create_deployment_environment\<close>: \<^verbatim>\<open>prevent_self_review\<close> is read and not sent (PyGithub
  does not support it). Without \<^verbatim>\<open>required_reviewers\<close> the comprehension iterates over
  \<^verbatim>\<open>None\<close> and raises.
\<close>

definition deployment_branch_policy_params :: "env_config \<Rightarrow> branch_policy_params" where
  "deployment_branch_policy_params env_config =
     \<lparr>params_protected_branches =
        get_default (branch_policy_get env_config protected_branches) True,
      params_custom_branch_policies =
        get_default (branch_policy_get env_config custom_branch_policies) False\<rparr>"

definition create_deployment_environment ::
  "'s remote \<Rightarrow> string \<Rightarrow> env_config \<Rightarrow> 's world \<Rightarrow> (exn + unit) \<times> 's world" where
  "create_deployment_environment r env_name env_config w =
     (let timer = get_default (wait_timer env_config) 5;
          branch_policy = deployment_branch_policy_params env_config
      in case required_reviewers env_config of
           None \<Rightarrow> (Inl TypeError, w)
         | Some reviewers \<Rightarrow>
             (case required_reviewers_with_id r reviewers w of
                (Inl e, w1) \<Rightarrow> (Inl e, w1)
              | (Inr params, w1) \<Rightarrow>
                  call_create_environment r env_name timer params branch_policy w1))"

subsection \<open>Branch policy upsert\<close>

text \<open>The loop of \<^verbatim>\<open>create_deployment_branch_policy\<close> over the policies.\<close>

fun post_branch_policies ::
  "'s remote \<Rightarrow> string \<Rightarrow> string \<Rightarrow> policy list \<Rightarrow> 's world \<Rightarrow> (exn + unit) \<times> 's world" where
  "post_branch_policies r repo_name env_name [] w = (Inr (), w)"
| "post_branch_policies r repo_name env_name (p # rest) w =
     (case call_requests_post r repo_name env_name p w of
        (rsp, w1) \<Rightarrow>
          if \<not> (200 \<le> status_code rsp \<and> status_code rsp \<le> 303)
          then (Inl (RequestError (json_message rsp) (status_code rsp)), w1)
          else post_branch_policies r repo_name env_name rest w1)"

definition create_deployment_branch_policy ::
  "'s remote \<Rightarrow> string \<Rightarrow> string \<Rightarrow> policy list option \<Rightarrow> 's world \<Rightarrow> (exn + unit) \<times> 's world" where
  "create_deployment_branch_policy r repo_name env_name deployment_branch_policies w =
     (if \<not> truthy_list deployment_branch_policies then (Inr (), w)
      else post_branch_policies r repo_name env_name
             (get_default deployment_branch_policies []) w)"

subsection \<open>Listing and deleting branch policies\<close>

definition get_deployment_policies ::
  "'s remote \<Rightarrow> string \<Rightarrow> string \<Rightarrow> 's world \<Rightarrow> remote_policy list \<times> 's world" where
  "get_deployment_policies r repo_name environment_name w =
     (case call_requests_get r repo_name environment_name w of
        (branch_policies, w1) \<Rightarrow> (get_default branch_policies [], w1))"

definition validate_204_response :: "response \<Rightarrow> exn + unit" where
  "validate_204_response rsp =
     (if status_code rsp \<noteq> 204
      then Inl (RequestError (json_message rsp) (status_code rsp))
      else Inr ())"

definition delete_deployment_branch_policy ::
  "'s remote \<Rightarrow> string \<Rightarrow> string \<Rightarrow> int \<Rightarrow> 's world \<Rightarrow> (exn + unit) \<times> 's world" where
  "delete_deployment_branch_policy r repo_name env_name pid w =
     (case call_requests_delete r repo_name env_name pid w of
        (rsp, w1) \<Rightarrow> (validate_204_response rsp, w1))"


subsection \<open>The directive\<close>

text \<open>
  What \<^verbatim>\<open>deployment_environments\<close> reads besides the YAML: the answer of
  \<^verbatim>\<open>self.noop("environments")\<close>, the name of the repository, the environment variable
  \<^verbatim>\<open>GH_TOKEN\<close> and the value of \<^verbatim>\<open>open(GH_TOKEN_FILE).read().strip()\<close> (\<open>None\<close> when the
  file cannot be read). \<^verbatim>\<open>noop\<close> and \<^verbatim>\<open>GH_TOKEN_FILE\<close> are declared outside the file, so
  their values are inputs.
\<close>

record run_context =
  noop_environments :: bool
  repository_name :: string
  environ_GH_TOKEN :: "string option"
  token_file_content :: "string option"

definition read_gh_token :: "run_context \<Rightarrow> exn + string" where
  "read_gh_token ctx =
     (case environ_GH_TOKEN ctx of
        Some t \<Rightarrow>
          (if t \<noteq> [] then Inr t
           else (case token_file_content ctx of None \<Rightarrow> Inl OSError | Some c \<Rightarrow> Inr c))
      | None \<Rightarrow> (case token_file_content ctx of None \<Rightarrow> Inl OSError | Some c \<Rightarrow> Inr c))"

text \<open>
  The loop over \<^verbatim>\<open>environments.items()\<close> that creates or updates each environment and,
  in custom mode, its branch policies.
\<close>

fun upsert_environments ::
  "'s remote \<Rightarrow> string \<Rightarrow> environments \<Rightarrow> 's world \<Rightarrow> (exn + unit) \<times> 's world" where
  "upsert_environments r repo_name [] w = (Inr (), w)"
| "upsert_environments r repo_name ((env_name, env_config) # rest) w =
     (case create_deployment_environment r env_name env_config w of
        (Inl e, w1) \<Rightarrow> (Inl e, w1)
      | (Inr u, w1) \<Rightarrow>
          (case (if truthy_flag (branch_policy_get env_config custom_branch_policies)
                 then create_deployment_branch_policy r repo_name env_name
                        (branch_policy_get env_config policies) w1
                 else (Inr (), w1)) of
             (Inl e, w2) \<Rightarrow> (Inl e, w2)
           | (Inr u2, w2) \<Rightarrow> upsert_environments r repo_name rest w2))"

text \<open>The block under \<^verbatim>\<open>if environments:\<close>, lines 168 to 184: validation, then the loop.\<close>

definition validate_and_upsert ::
  "'s remote \<Rightarrow> string \<Rightarrow> environments \<Rightarrow> 's world \<Rightarrow> (exn + unit) \<times> 's world" where
  "validate_and_upsert r repo_name environments w =
     (let config_environment_errors = validate_environment_configs environments
      in if config_environment_errors \<noteq> []
         then (Inl (InvalidEnvironmentConfigurations config_environment_errors), w)
         else upsert_environments r repo_name environments w)"

text \<open>
  \<^verbatim>\<open>list(set(repo_environment_names) - set(environments.keys()))\<close>. Python does not fix
  the order in which a set is iterated; the model lists the elements in the order of
  their first occurrence in \<^verbatim>\<open>repo_environment_names\<close>, and nothing below depends on it.
\<close>

definition set_difference_list :: "string list \<Rightarrow> string list \<Rightarrow> string list" where
  "set_difference_list xs ys = remdups (filter (\<lambda>x. x \<notin> set ys) xs)"

fun delete_environments_loop ::
  "'s remote \<Rightarrow> string list \<Rightarrow> 's world \<Rightarrow> (exn + unit) \<times> 's world" where
  "delete_environments_loop r [] w = (Inr (), w)"
| "delete_environments_loop r (env_to_delete # rest) w =
     (case call_delete_environment r env_to_delete w of
        (Inl e, w1) \<Rightarrow> (Inl e, w1)
      | (Inr u, w1) \<Rightarrow> delete_environments_loop r rest w1)"

text \<open>The environment deletion pass, lines 188 to 201.\<close>

definition delete_environments ::
  "'s remote \<Rightarrow> environments \<Rightarrow> 's world \<Rightarrow> (exn + unit) \<times> 's world" where
  "delete_environments r environments w =
     (case call_get_environments r w of
        (Inl e, w1) \<Rightarrow> (Inl e, w1)
      | (Inr repo_environment_names, w1) \<Rightarrow>
          (let environments_to_be_removed =
                 (if environments \<noteq> []
                  then set_difference_list repo_environment_names (map fst environments)
                  else repo_environment_names)
           in delete_environments_loop r environments_to_be_removed w1))"

text \<open>
  The inner loop of the branch policy deletion pass: every remote policy whose name is
  not among the names of the configuration is deleted by its id.
\<close>

fun delete_stale_policies ::
  "'s remote \<Rightarrow> string \<Rightarrow> string \<Rightarrow> string list \<Rightarrow> remote_policy list \<Rightarrow> 's world
     \<Rightarrow> (exn + unit) \<times> 's world" where
  "delete_stale_policies r repo_name env_name asf_names [] w = (Inr (), w)"
| "delete_stale_policies r repo_name env_name asf_names (repo_policy # rest) w =
     (if remote_policy_name repo_policy \<notin> set asf_names
      then (case delete_deployment_branch_policy r repo_name env_name
                   (remote_policy_id repo_policy) w of
              (Inl e, w1) \<Rightarrow> (Inl e, w1)
            | (Inr u, w1) \<Rightarrow> delete_stale_policies r repo_name env_name asf_names rest w1)
      else delete_stale_policies r repo_name env_name asf_names rest w)"

text \<open>
  The body of the loop over \<^verbatim>\<open>environment_names\<close>, lines 214 to 242, for one name.
  \<^verbatim>\<open>environments.get(env_name)\<close> is the dictionary lookup.
\<close>

definition delete_policies_of_environment ::
  "'s remote \<Rightarrow> string \<Rightarrow> environments \<Rightarrow> string \<Rightarrow> 's world \<Rightarrow> (exn + unit) \<times> 's world" where
  "delete_policies_of_environment r repo_name environments env_name w =
     (case map_of environments env_name of
        None \<Rightarrow> (Inl AttributeError, w)
      | Some env_config \<Rightarrow>
          (let is_protected_branches = branch_policy_get env_config protected_branches
           in if truthy_flag is_protected_branches then (Inr (), w)
              else (case get_deployment_policies r repo_name env_name w of
                      (repo_deployment_branch_policies, w1) \<Rightarrow>
                        (let asf_config_environment_policies =
                               get_default (branch_policy_get env_config policies) [];
                             asf_config_environment_policy_names =
                               map policy_name asf_config_environment_policies
                         in delete_stale_policies r repo_name env_name
                              asf_config_environment_policy_names
                              repo_deployment_branch_policies w1))))"

fun delete_branch_policies_loop ::
  "'s remote \<Rightarrow> string \<Rightarrow> environments \<Rightarrow> string list \<Rightarrow> 's world \<Rightarrow> (exn + unit) \<times> 's world" where
  "delete_branch_policies_loop r repo_name environments [] w = (Inr (), w)"
| "delete_branch_policies_loop r repo_name environments (env_name # rest) w =
     (case delete_policies_of_environment r repo_name environments env_name w of
        (Inl e, w1) \<Rightarrow> (Inl e, w1)
      | (Inr u, w1) \<Rightarrow> delete_branch_policies_loop r repo_name environments rest w1)"

text \<open>The branch policy deletion pass, lines 211 to 242, over \<^verbatim>\<open>environments.keys()\<close>.\<close>

definition delete_branch_policies ::
  "'s remote \<Rightarrow> string \<Rightarrow> environments \<Rightarrow> 's world \<Rightarrow> (exn + unit) \<times> 's world" where
  "delete_branch_policies r repo_name environments w =
     delete_branch_policies_loop r repo_name environments (map fst environments) w"

text \<open>
  \<^verbatim>\<open>deployment_environments\<close>. The argument \<open>yaml_environments\<close> is the entry
  \<^verbatim>\<open>environments\<close> of \<^verbatim>\<open>self.yaml\<close>, \<open>None\<close> when the key is absent; the default of the
  \<^verbatim>\<open>get\<close> is the empty list, which is as false as the empty dictionary. Creating the
  PyGithub session makes no request.
\<close>

definition deployment_environments ::
  "'s remote \<Rightarrow> run_context \<Rightarrow> environments option \<Rightarrow> 's world \<Rightarrow> (exn + unit) \<times> 's world" where
  "deployment_environments r ctx yaml_environments w =
     (let environments = get_default yaml_environments [];
          repo_name = repository_name ctx
      in if noop_environments ctx then (Inr (), w)
         else (case read_gh_token ctx of
                 Inl e \<Rightarrow> (Inl e, w)
               | Inr gh_token \<Rightarrow>
                   (case (if environments \<noteq> []
                          then validate_and_upsert r repo_name environments w
                          else (Inr (), w)) of
                      (Inl e, w1) \<Rightarrow> (Inl e, w1)
                    | (Inr u, w1) \<Rightarrow>
                        if yaml_environments \<noteq> None
                        then (case delete_environments r environments w1 of
                                (Inl e, w2) \<Rightarrow> (Inl e, w2)
                              | (Inr u2, w2) \<Rightarrow>
                                  if environments \<noteq> []
                                  then delete_branch_policies r repo_name environments w2
                                  else (Inr (), w2))
                        else (Inr (), w1))))"


section \<open>Reading a recording\<close>

text \<open>
  What a recorded sequence of calls says: the environments it deletes, the lists of
  environment names it was given, for one environment the branch policy mode flags it
  sends, the policy listings it was given and the policy ids it deletes.
\<close>

fun deleted_environment :: "event \<Rightarrow> string list" where
  "deleted_environment (DeleteEnvironment n x) = [n]"
| "deleted_environment ev = []"

definition deleted_environments :: "event list \<Rightarrow> string list" where
  "deleted_environments evs = concat (map deleted_environment evs)"

fun listed_environment :: "event \<Rightarrow> (exn + string list) list" where
  "listed_environment (GetEnvironments x) = [x]"
| "listed_environment ev = []"

definition listed_environments :: "event list \<Rightarrow> (exn + string list) list" where
  "listed_environments evs = concat (map listed_environment evs)"

fun sent_mode :: "string \<Rightarrow> event \<Rightarrow> branch_policy_params list" where
  "sent_mode n (CreateEnvironment m t rs bp x) = (if m = n then [bp] else [])"
| "sent_mode n ev = []"

definition sent_modes :: "string \<Rightarrow> event list \<Rightarrow> branch_policy_params list" where
  "sent_modes n evs = concat (map (sent_mode n) evs)"

fun fetched_policy_list :: "string \<Rightarrow> event \<Rightarrow> remote_policy list list" where
  "fetched_policy_list n (GetBranchPolicies repo m ps) =
     (if m = n then [get_default ps []] else [])"
| "fetched_policy_list n ev = []"

definition fetched_policy_lists :: "string \<Rightarrow> event list \<Rightarrow> remote_policy list list" where
  "fetched_policy_lists n evs = concat (map (fetched_policy_list n) evs)"

fun deleted_policy_id :: "string \<Rightarrow> event \<Rightarrow> int list" where
  "deleted_policy_id n (DeleteBranchPolicy repo m pid rsp) = (if m = n then [pid] else [])"
| "deleted_policy_id n ev = []"

definition deleted_policy_ids :: "string \<Rightarrow> event list \<Rightarrow> int list" where
  "deleted_policy_ids n evs = concat (map (deleted_policy_id n) evs)"

text \<open>The calls that change the remote side.\<close>

fun mutating :: "event \<Rightarrow> bool" where
  "mutating (CreateEnvironment m t rs bp x) = True"
| "mutating (DeleteEnvironment n x) = True"
| "mutating (PostBranchPolicy repo m p rsp) = True"
| "mutating (DeleteBranchPolicy repo m pid rsp) = True"
| "mutating ev = False"

text \<open>
  What an upsert of the reviewers \<open>rs\<close> looks like when their resolved ids are \<open>ids\<close>: a
  lookup for each user name, answered with the id at the same position, and the
  parameters that pair each reviewer's type with its id.
\<close>

fun lookup_events :: "reviewer list \<Rightarrow> int list \<Rightarrow> event list" where
  "lookup_events (rv # rs) (i # ids) =
     (case reviewer_id rv of
        UserId n \<Rightarrow> lookup_events rs ids
      | Username login \<Rightarrow> GetUser login (Inr i) # lookup_events rs ids)"
| "lookup_events rs ids = []"

fun resolved_params :: "reviewer list \<Rightarrow> int list \<Rightarrow> reviewer_params list" where
  "resolved_params (rv # rs) (i # ids) =
     \<lparr>params_type = reviewer_type rv, params_id = i\<rparr> # resolved_params rs ids"
| "resolved_params rs ids = []"

fun integer_ids_unchanged :: "reviewer list \<Rightarrow> int list \<Rightarrow> bool" where
  "integer_ids_unchanged (rv # rs) (i # ids) =
     ((case reviewer_id rv of UserId n \<Rightarrow> i = n | Username login \<Rightarrow> True)
      \<and> integer_ids_unchanged rs ids)"
| "integer_ids_unchanged rs ids = True"

section \<open>A reference remote\<close>

text \<open>
  A remote side with the behaviour that section 4.2 of the specification states for the
  hosting platform: a user lookup reads a table; creating an environment creates it if
  absent and overwrites its settings otherwise; deleting an environment removes it and
  its policies; a policy is created under a fresh id and deleted by id. It stands for
  the platform where a statement is about the remote state, and it runs the examples.
\<close>

record env_settings =
  settings_wait_timer :: int
  settings_reviewers :: "reviewer_params list"
  settings_branch_policy :: branch_policy_params

record github =
  users :: "string \<Rightarrow> int option"
  remote_environments :: "(string \<times> env_settings) list"
  remote_branch_policies :: "(string \<times> remote_policy list) list"
  next_policy_id :: int

definition not_found :: response where
  "not_found = \<lparr>status_code = 404, json_message = Some ''Not Found''\<rparr>"

definition policies_of :: "github \<Rightarrow> string \<Rightarrow> remote_policy list" where
  "policies_of s n = get_default (map_of (remote_branch_policies s) n) []"

definition reference_remote :: "github remote" where
  "reference_remote =
     \<lparr>get_user = (\<lambda>login s.
        (case users s login of None \<Rightarrow> (Inl (GithubException 404), s) | Some i \<Rightarrow> (Inr i, s))),
      create_environment = (\<lambda>n timer reviewers branch_policy s.
        (Inr (),
         s\<lparr>remote_environments :=
             AList.update n
               \<lparr>settings_wait_timer = timer, settings_reviewers = reviewers,
                settings_branch_policy = branch_policy\<rparr>
               (remote_environments s)\<rparr>)),
      get_environments = (\<lambda>s. (Inr (map fst (remote_environments s)), s)),
      delete_environment = (\<lambda>n s.
        if n \<in> set (map fst (remote_environments s))
        then (Inr (),
              s\<lparr>remote_environments := AList.delete n (remote_environments s),
                remote_branch_policies := AList.delete n (remote_branch_policies s)\<rparr>)
        else (Inl (GithubException 404), s)),
      requests_post = (\<lambda>repo_name n p s.
        if n \<in> set (map fst (remote_environments s))
        then (\<lparr>status_code = 200, json_message = None\<rparr>,
              s\<lparr>remote_branch_policies :=
                  AList.update n
                    (policies_of s n @
                       [\<lparr>remote_policy_id = next_policy_id s,
                         remote_policy_name = policy_name p\<rparr>])
                    (remote_branch_policies s),
                next_policy_id := next_policy_id s + 1\<rparr>)
        else (not_found, s)),
      requests_get = (\<lambda>repo_name n s.
        if n \<in> set (map fst (remote_environments s))
        then (Some (policies_of s n), s) else (None, s)),
      requests_delete = (\<lambda>repo_name n pid s.
        if pid \<in> set (map remote_policy_id (policies_of s n))
        then (\<lparr>status_code = 204, json_message = None\<rparr>,
              s\<lparr>remote_branch_policies :=
                  AList.update n
                    (filter (\<lambda>p. remote_policy_id p \<noteq> pid) (policies_of s n))
                    (remote_branch_policies s)\<rparr>)
        else (not_found, s))\<rparr>"


section \<open>Notions of the specification\<close>


text \<open>
  The names of the policies that the configuration of an environment asks for, and of
  a list of remote policies those that are stale: the ones whose name is not asked for.
\<close>

definition desired_policy_names :: "env_config \<Rightarrow> string list" where
  "desired_policy_names c =
     (case deployment_branch_policy c of
        None \<Rightarrow> []
      | Some p \<Rightarrow> (case policies p of None \<Rightarrow> [] | Some ps \<Rightarrow> map policy_name ps))"

definition stale_policies :: "env_config \<Rightarrow> remote_policy list \<Rightarrow> remote_policy list" where
  "stale_policies c remote =
     filter (\<lambda>p. remote_policy_name p \<notin> set (desired_policy_names c)) remote"

text \<open>
  The configuration selects protected branches: its \<^verbatim>\<open>deployment_branch_policy\<close> is
  present and sets \<^verbatim>\<open>protected_branches\<close> to true.
\<close>

definition selects_protected_branches :: "env_config \<Rightarrow> bool" where
  "selects_protected_branches c =
     (case deployment_branch_policy c of
        None \<Rightarrow> False
      | Some p \<Rightarrow> protected_branches p = Some True)"

text \<open>
  What the branch policy deletion pass is to do for one environment, read off a
  recording: nothing when the configuration selects protected branches; otherwise one
  listing of the environment's policies, and the deletion by id, in order, of those of
  the listed policies that are stale.
\<close>

definition cleaned_up :: "env_config \<Rightarrow> string \<Rightarrow> event list \<Rightarrow> bool" where
  "cleaned_up c n evs =
     (if selects_protected_branches c
      then fetched_policy_lists n evs = [] \<and> deleted_policy_ids n evs = []
      else (case fetched_policy_lists n evs of
              [fetched] \<Rightarrow>
                deleted_policy_ids n evs = map remote_policy_id (stale_policies c fetched)
            | other \<Rightarrow> False))"

text \<open>The calls of the three phases of a run.\<close>

fun upsert_event :: "event \<Rightarrow> bool" where
  "upsert_event (GetUser login x) = True"
| "upsert_event (CreateEnvironment m t rs bp x) = True"
| "upsert_event (PostBranchPolicy repo m p rsp) = True"
| "upsert_event ev = False"

fun environment_cleanup_event :: "event \<Rightarrow> bool" where
  "environment_cleanup_event (GetEnvironments x) = True"
| "environment_cleanup_event (DeleteEnvironment n x) = True"
| "environment_cleanup_event ev = False"

fun policy_cleanup_event :: "event \<Rightarrow> bool" where
  "policy_cleanup_event (GetBranchPolicies repo m ps) = True"
| "policy_cleanup_event (DeleteBranchPolicy repo m pid rsp) = True"
| "policy_cleanup_event ev = False"


section \<open>Example configurations and an example repository\<close>

definition alice :: reviewer where
  "alice = \<lparr>reviewer_type = ''User'', reviewer_id = Username ''alice''\<rparr>"

definition reviewer_seven :: reviewer where
  "reviewer_seven = \<lparr>reviewer_type = ''User'', reviewer_id = UserId 7\<rparr>"

text \<open>Two reviewers and no \<^verbatim>\<open>deployment_branch_policy\<close>.\<close>

definition config_plain :: env_config where
  "config_plain =
     \<lparr>required_reviewers = Some [alice, reviewer_seven], prevent_self_review = None,
      wait_timer = None, deployment_branch_policy = None\<rparr>"

text \<open>Custom branch policies \<^verbatim>\<open>p1\<close> and \<^verbatim>\<open>p3\<close>.\<close>

definition config_custom :: env_config where
  "config_custom =
     \<lparr>required_reviewers = Some [reviewer_seven], prevent_self_review = Some True,
      wait_timer = Some 10,
      deployment_branch_policy =
        Some \<lparr>protected_branches = Some False, custom_branch_policies = Some True,
              policies = Some [\<lparr>policy_name = ''p1''\<rparr>, \<lparr>policy_name = ''p3''\<rparr>]\<rparr>\<rparr>"

text \<open>Protected branches selected.\<close>

definition config_protected :: env_config where
  "config_protected =
     \<lparr>required_reviewers = Some [reviewer_seven], prevent_self_review = None,
      wait_timer = None,
      deployment_branch_policy =
        Some \<lparr>protected_branches = Some True, custom_branch_policies = Some False,
              policies = None\<rparr>\<rparr>"

text \<open>No reviewers, both modes, no policies: three rules broken.\<close>

definition config_invalid :: env_config where
  "config_invalid =
     \<lparr>required_reviewers = None, prevent_self_review = None, wait_timer = None,
      deployment_branch_policy =
        Some \<lparr>protected_branches = Some True, custom_branch_policies = Some True,
              policies = None\<rparr>\<rparr>"

definition config_reviewers :: "nat \<Rightarrow> env_config" where
  "config_reviewers k =
     \<lparr>required_reviewers = Some (replicate k reviewer_seven), prevent_self_review = None,
      wait_timer = None, deployment_branch_policy = None\<rparr>"

definition example_environments :: environments where
  "example_environments =
     [(''A'', config_custom), (''B'', config_plain), (''D'', config_protected)]"

definition example_context :: run_context where
  "example_context =
     \<lparr>noop_environments = False, repository_name = ''repo'',
      environ_GH_TOKEN = Some ''token'', token_file_content = None\<rparr>"

definition some_settings :: env_settings where
  "some_settings =
     \<lparr>settings_wait_timer = 0, settings_reviewers = [],
      settings_branch_policy =
        \<lparr>params_protected_branches = False, params_custom_branch_policies = True\<rparr>\<rparr>"

text \<open>
  A repository with the environments \<^verbatim>\<open>A\<close>, \<^verbatim>\<open>B\<close>, \<^verbatim>\<open>C\<close> and \<^verbatim>\<open>D\<close>; \<^verbatim>\<open>A\<close> has the
  policies \<^verbatim>\<open>p1\<close> and \<^verbatim>\<open>p2\<close>, \<^verbatim>\<open>B\<close> and \<^verbatim>\<open>D\<close> have one policy each.
\<close>

definition example_github :: github where
  "example_github =
     \<lparr>users = (\<lambda>login. if login = ''alice'' then Some 42 else None),
      remote_environments =
        [(''A'', some_settings), (''B'', some_settings), (''C'', some_settings),
         (''D'', some_settings)],
      remote_branch_policies =
        [(''A'', [\<lparr>remote_policy_id = 1, remote_policy_name = ''p1''\<rparr>,
                  \<lparr>remote_policy_id = 2, remote_policy_name = ''p2''\<rparr>]),
         (''B'', [\<lparr>remote_policy_id = 3, remote_policy_name = ''main''\<rparr>]),
         (''D'', [\<lparr>remote_policy_id = 4, remote_policy_name = ''old''\<rparr>])],
      next_policy_id = 5\<rparr>"

definition example_run :: "(exn + unit) \<times> github world" where
  "example_run =
     deployment_environments reference_remote example_context (Some example_environments)
       (example_github, [])"





text \<open>Creating or updating the environment \<^verbatim>\<open>B\<close> alone.\<close>

definition example_upsert :: "(exn + unit) \<times> github world" where
  "example_upsert =
     create_deployment_environment reference_remote ''B'' config_plain (example_github, [])"

text \<open>The same upsert once more, on the state that the first one left.\<close>

definition example_upsert_twice :: "(exn + unit) \<times> github world" where
  "example_upsert_twice =
     create_deployment_environment reference_remote ''B'' config_plain (snd example_upsert)"

text \<open>The branch policy deletion pass alone, on the example repository.\<close>

definition example_policy_cleanup :: "(exn + unit) \<times> github world" where
  "example_policy_cleanup =
     delete_branch_policies reference_remote ''repo'' example_environments (example_github, [])"

section \<open>Properties of the validator\<close>

lemma validate_step_append:
  "validate_step item errs = errs @ violations_of item"
  by (cases item)
     (auto simp add: validate_step_def violations_of_def all_rules_def Let_def
        truthy_list_def truthy_flag_def get_default_def branch_policy_get_def
      split: option.splits)

lemma fold_validate_step:
  "fold validate_step envs acc = acc @ all_violations envs"
  by (induction envs arbitrary: acc) (simp_all add: all_violations_def validate_step_append)

lemma validate_all_violations:
  "validate_environment_configs environments = all_violations environments"
  by (simp add: validate_environment_configs_def fold_validate_step)

lemma rule_message_inj: "rule_message r = rule_message r' \<Longrightarrow> r = r'"
  by (cases r; cases r')
     (simp_all add: msg_reviewers_missing_def msg_reviewers_too_many_def msg_both_modes_def
        msg_policies_missing_def)

lemma set_all_rules: "r \<in> set all_rules"
  by (cases r) (simp_all add: all_rules_def)

lemma in_violations_of:
  "x \<in> set (violations_of item) \<longleftrightarrow>
     (\<exists>r. violates r (snd item) \<and> x = \<lparr>env = fst item, error = rule_message r\<rparr>)"
  unfolding violations_of_def set_map set_filter using set_all_rules by blast

lemma in_all_violations:
  "x \<in> set (all_violations environments) \<longleftrightarrow>
     (\<exists>n c r. (n, c) \<in> set environments \<and> violates r c \<and> x = \<lparr>env = n, error = rule_message r\<rparr>)"
  unfolding all_violations_def set_concat set_map
  by (simp only: UN_iff in_violations_of bex_simps) force

lemma in_validate:
  assumes "distinct (map fst environments)" and "(n, c) \<in> set environments"
  shows "\<lparr>env = n, error = rule_message r\<rparr> \<in> set (validate_environment_configs environments)
           \<longleftrightarrow> violates r c"
proof
  assume "\<lparr>env = n, error = rule_message r\<rparr> \<in> set (validate_environment_configs environments)"
  then obtain n' c' r' where h: "(n', c') \<in> set environments" "violates r' c'"
      "\<lparr>env = n, error = rule_message r\<rparr> = \<lparr>env = n', error = rule_message r'\<rparr>"
    unfolding validate_all_violations in_all_violations by blast
  from h(3) have "n' = n" "r' = r" by (simp_all add: rule_message_inj)
  with h(1) assms have "c' = c" by (metis eq_key_imp_eq_value)
  with h(2) \<open>r' = r\<close> show "violates r c" by simp
next
  assume "violates r c"
  with assms(2) show "\<lparr>env = n, error = rule_message r\<rparr> \<in> set (validate_environment_configs environments)"
    unfolding validate_all_violations in_all_violations by blast
qed

lemma validate_invalid_example:
  "validate_environment_configs [(''A'', config_invalid), (''B'', config_plain)] =
     [\<lparr>env = ''A'', error = msg_reviewers_missing\<rparr>,
      \<lparr>env = ''A'', error = msg_both_modes\<rparr>,
      \<lparr>env = ''A'', error = msg_policies_missing\<rparr>]"
  by code_simp

text \<open>
  C4. The validator returns, for the environments in order, one entry for each rule
  that the environment's configuration breaks, with the name of the environment and
  the message of the rule; an environment that breaks several rules has one entry for
  each. The validator is a total function to lists: it has no exception to raise.
\<close>

theorem validator_one_entry_per_violated_rule:
  "validate_environment_configs environments = all_violations environments"
  by (rule validate_all_violations)

theorem validator_one_entry_per_violated_rule_witness:
  "all_violations [(''A'', config_invalid), (''B'', config_plain)] =
     [\<lparr>env = ''A'', error = msg_reviewers_missing\<rparr>,
      \<lparr>env = ''A'', error = msg_both_modes\<rparr>,
      \<lparr>env = ''A'', error = msg_policies_missing\<rparr>]"
  using validator_one_entry_per_violated_rule [of "[(''A'', config_invalid), (''B'', config_plain)]"]
  by (simp add: validate_invalid_example)

text \<open>
  C8. In a dictionary of environments, the entry "more than 6 reviewers" is reported for
  an environment exactly when its \<^verbatim>\<open>required_reviewers\<close> has more than 6 entries: with 7
  it is reported, with exactly 6 it is not; and the entry "reviewers missing" is
  reported exactly when the list is empty, so not with 6 either.
\<close>

theorem reviewer_limit_is_six:
  assumes "distinct (map fst environments)" and "(n, c) \<in> set environments"
    and "required_reviewers c = Some rs"
  shows "(\<lparr>env = n, error = msg_reviewers_too_many\<rparr>
            \<in> set (validate_environment_configs environments)) = (6 < length rs)
       \<and> (\<lparr>env = n, error = msg_reviewers_missing\<rparr>
            \<in> set (validate_environment_configs environments)) = (rs = [])"
  using in_validate [OF assms(1,2), of ReviewersAtMostSix]
    in_validate [OF assms(1,2), of ReviewersPresent] assms(3)
  by simp

theorem reviewer_limit_is_six_witness:
  "\<lparr>env = ''seven'', error = msg_reviewers_too_many\<rparr>
     \<in> set (validate_environment_configs
              [(''six'', config_reviewers 6), (''seven'', config_reviewers 7)])
   \<and> \<lparr>env = ''six'', error = msg_reviewers_too_many\<rparr>
     \<notin> set (validate_environment_configs
              [(''six'', config_reviewers 6), (''seven'', config_reviewers 7)])
   \<and> \<lparr>env = ''six'', error = msg_reviewers_missing\<rparr>
     \<notin> set (validate_environment_configs
              [(''six'', config_reviewers 6), (''seven'', config_reviewers 7)])"
  using reviewer_limit_is_six
      [of "[(''six'', config_reviewers 6), (''seven'', config_reviewers 7)]" "''seven''"
          "config_reviewers 7" "replicate 7 reviewer_seven"]
    reviewer_limit_is_six
      [of "[(''six'', config_reviewers 6), (''seven'', config_reviewers 7)]" "''six''"
          "config_reviewers 6" "replicate 6 reviewer_seven"]
  by (simp add: config_reviewers_def)

text \<open>
  C9. An environment whose configuration sets both \<^verbatim>\<open>protected_branches\<close> and
  \<^verbatim>\<open>custom_branch_policies\<close> to true gets the entry "cannot be enabled at the same time",
  whatever its other fields and the other environments are.
\<close>

theorem both_modes_flagged:
  assumes "(n, c) \<in> set environments" and "deployment_branch_policy c = Some p"
    and "protected_branches p = Some True" and "custom_branch_policies p = Some True"
  shows "\<lparr>env = n, error = msg_both_modes\<rparr> \<in> set (validate_environment_configs environments)"
proof -
  have "violates ModesExclusive c" using assms(2-4) by simp
  moreover have "msg_both_modes = rule_message ModesExclusive" by simp
  ultimately show ?thesis
    unfolding validate_all_violations in_all_violations using assms(1) by blast
qed

theorem both_modes_flagged_witness:
  "\<lparr>env = ''A'', error = msg_both_modes\<rparr>
     \<in> set (validate_environment_configs [(''A'', config_invalid), (''B'', config_plain)])"
  using both_modes_flagged
      [of "''A''" config_invalid "[(''A'', config_invalid), (''B'', config_plain)]"
          "\<lparr>protected_branches = Some True, custom_branch_policies = Some True,
            policies = None\<rparr>"]
  by (simp add: config_invalid_def)



section \<open>Recordings\<close>

lemma projections_append [simp]:
  "deleted_environments (xs @ ys) = deleted_environments xs @ deleted_environments ys"
  "listed_environments (xs @ ys) = listed_environments xs @ listed_environments ys"
  "sent_modes n (xs @ ys) = sent_modes n xs @ sent_modes n ys"
  "fetched_policy_lists n (xs @ ys) = fetched_policy_lists n xs @ fetched_policy_lists n ys"
  "deleted_policy_ids n (xs @ ys) = deleted_policy_ids n xs @ deleted_policy_ids n ys"
  by (simp_all add: deleted_environments_def listed_environments_def sent_modes_def
        fetched_policy_lists_def deleted_policy_ids_def)

lemma projections_Nil [simp]:
  "deleted_environments [] = []"
  "listed_environments [] = []"
  "sent_modes n [] = []"
  "fetched_policy_lists n [] = []"
  "deleted_policy_ids n [] = []"
  by (simp_all add: deleted_environments_def listed_environments_def sent_modes_def
        fetched_policy_lists_def deleted_policy_ids_def)

lemma projections_Cons [simp]:
  "deleted_environments (ev # xs) = deleted_environment ev @ deleted_environments xs"
  "listed_environments (ev # xs) = listed_environment ev @ listed_environments xs"
  "sent_modes n (ev # xs) = sent_mode n ev @ sent_modes n xs"
  "fetched_policy_lists n (ev # xs) = fetched_policy_list n ev @ fetched_policy_lists n xs"
  "deleted_policy_ids n (ev # xs) = deleted_policy_id n ev @ deleted_policy_ids n xs"
  by (simp_all add: deleted_environments_def listed_environments_def sent_modes_def
        fetched_policy_lists_def deleted_policy_ids_def)

lemma upsert_events_quiet:
  "list_all upsert_event evs \<Longrightarrow>
     deleted_environments evs = [] \<and> listed_environments evs = []
     \<and> fetched_policy_lists n evs = [] \<and> deleted_policy_ids n evs = []"
proof (induction evs)
  case Nil then show ?case by simp
next
  case (Cons ev evs) then show ?case by (cases ev) simp_all
qed

lemma environment_cleanup_events_quiet:
  "list_all environment_cleanup_event evs \<Longrightarrow>
     sent_modes n evs = [] \<and> fetched_policy_lists n evs = [] \<and> deleted_policy_ids n evs = []"
proof (induction evs)
  case Nil then show ?case by simp
next
  case (Cons ev evs) then show ?case by (cases ev) simp_all
qed

lemma policy_cleanup_events_quiet:
  "list_all policy_cleanup_event evs \<Longrightarrow>
     sent_modes n evs = [] \<and> deleted_environments evs = [] \<and> listed_environments evs = []"
proof (induction evs)
  case Nil then show ?case by simp
next
  case (Cons ev evs) then show ?case by (cases ev) simp_all
qed

subsection \<open>The calls\<close>

lemma call_get_user_events:
  "call_get_user r login w = (res, w1) \<Longrightarrow> snd w1 = snd w @ [GetUser login res]"
  by (auto simp add: call_get_user_def split: prod.splits)

lemma call_create_environment_events:
  "call_create_environment r n t ps bp w = (res, w1) \<Longrightarrow>
     snd w1 = snd w @ [CreateEnvironment n t ps bp res]"
  by (auto simp add: call_create_environment_def split: prod.splits)

lemma call_get_environments_events:
  "call_get_environments r w = (res, w1) \<Longrightarrow> snd w1 = snd w @ [GetEnvironments res]"
  by (auto simp add: call_get_environments_def split: prod.splits)

lemma call_delete_environment_events:
  "call_delete_environment r n w = (res, w1) \<Longrightarrow> snd w1 = snd w @ [DeleteEnvironment n res]"
  by (auto simp add: call_delete_environment_def split: prod.splits)


lemma call_requests_get_events:
  "call_requests_get r repo_name env_name w = (ps, w1) \<Longrightarrow>
     snd w1 = snd w @ [GetBranchPolicies repo_name env_name ps]"
  by (auto simp add: call_requests_get_def split: prod.splits)

lemma call_requests_delete_events:
  "call_requests_delete r repo_name env_name pid w = (rsp, w1) \<Longrightarrow>
     snd w1 = snd w @ [DeleteBranchPolicy repo_name env_name pid rsp]"
  by (auto simp add: call_requests_delete_def split: prod.splits)

section \<open>Environment upsert\<close>

lemma get_user_id_events:
  "get_user_id r ident w = (res, w1) \<Longrightarrow>
     (case ident of
        UserId k \<Rightarrow> res = Inr k \<and> w1 = w
      | Username login \<Rightarrow> snd w1 = snd w @ [GetUser login res])"
  by (cases ident) (auto simp add: get_user_id_def dest: call_get_user_events)

lemma lookup_events_are_lookups:
  "ev \<in> set (lookup_events rs ids) \<Longrightarrow> \<exists>login i. ev = GetUser login (Inr i)"
  by (induction rs ids rule: lookup_events.induct) (auto split: reviewer_ident.splits)

lemma reviewers_resolved:
  "required_reviewers_with_id r rs w = (Inr params, w1) \<Longrightarrow>
     \<exists>ids. length ids = length rs \<and> params = resolved_params rs ids
       \<and> integer_ids_unchanged rs ids \<and> snd w1 = snd w @ lookup_events rs ids"
proof (induction rs arbitrary: w params)
  case Nil
  then show ?case by (auto intro: exI [of _ "[]"])
next
  case (Cons rv rs)
  from Cons.prems obtain uid w0 params0 where
    a: "get_user_id r (reviewer_id rv) w = (Inr uid, w0)"
    and b: "required_reviewers_with_id r rs w0 = (Inr params0, w1)"
    and c: "params = \<lparr>params_type = reviewer_type rv, params_id = uid\<rparr> # params0"
    by (auto split: prod.splits sum.splits)
  from Cons.IH [OF b] obtain ids where
    h: "length ids = length rs" "params0 = resolved_params rs ids"
       "integer_ids_unchanged rs ids" "snd w1 = snd w0 @ lookup_events rs ids"
    by blast
  from get_user_id_events [OF a] h c show ?case
    by (intro exI [of _ "uid # ids"]) (auto split: reviewer_ident.splits)
qed

lemma reviewers_failed:
  "required_reviewers_with_id r rs w = (Inl e, w1) \<Longrightarrow>
     \<exists>evs. snd w1 = snd w @ evs \<and> (\<forall>ev \<in> set evs. \<exists>login x. ev = GetUser login x)"
proof (induction rs arbitrary: w)
  case Nil
  then show ?case by simp
next
  case (Cons rv rs)
  obtain res0 w0 where a: "get_user_id r (reviewer_id rv) w = (res0, w0)"
    by (cases "get_user_id r (reviewer_id rv) w")
  from get_user_id_events [OF a]
  obtain evs0 where e0: "snd w0 = snd w @ evs0" "\<forall>ev \<in> set evs0. \<exists>login x. ev = GetUser login x"
    by (cases "reviewer_id rv") auto
  show ?case
  proof (cases res0)
    case (Inl e')
    with Cons.prems a have "w1 = w0" by simp
    with e0 show ?thesis by blast
  next
    case (Inr uid)
    with Cons.prems a have "required_reviewers_with_id r rs w0 = (Inl e, w1)"
      by (auto split: prod.splits sum.splits)
    from Cons.IH [OF this] obtain evs where
      "snd w1 = snd w0 @ evs" "\<forall>ev \<in> set evs. \<exists>login x. ev = GetUser login x" by blast
    with e0 show ?thesis by (intro exI [of _ "evs0 @ evs"]) auto
  qed
qed

lemma create_deployment_environment_cases:
  assumes "create_deployment_environment r n c w = (res, w')"
  shows "(\<exists>e evs. res = Inl e \<and> snd w' = snd w @ evs
             \<and> (\<forall>ev \<in> set evs. \<exists>login x. ev = GetUser login x))
       \<or> (\<exists>rs ids. required_reviewers c = Some rs \<and> length ids = length rs
             \<and> integer_ids_unchanged rs ids
             \<and> snd w' = snd w @ lookup_events rs ids @
                 [CreateEnvironment n (get_default (wait_timer c) 5) (resolved_params rs ids)
                    (deployment_branch_policy_params c) res])"
proof (cases "required_reviewers c")
  case None
  with assms show ?thesis by (auto simp add: create_deployment_environment_def)
next
  case (Some rs)
  obtain res0 w0 where a: "required_reviewers_with_id r rs w = (res0, w0)"
    by (cases "required_reviewers_with_id r rs w")
  show ?thesis
  proof (cases res0)
    case (Inl e)
    with assms Some a have "res = Inl e" "w' = w0"
      by (auto simp add: create_deployment_environment_def Let_def)
    with reviewers_failed a Inl show ?thesis by blast
  next
    case (Inr params)
    with assms Some a have
      b: "call_create_environment r n (get_default (wait_timer c) 5) params
            (deployment_branch_policy_params c) w0 = (res, w')"
      by (auto simp add: create_deployment_environment_def Let_def)
    from reviewers_resolved a Inr obtain ids where
      h: "length ids = length rs" "params = resolved_params rs ids"
         "integer_ids_unchanged rs ids" "snd w0 = snd w @ lookup_events rs ids"
      by blast
    from call_create_environment_events [OF b] h Some show ?thesis by auto
  qed
qed

lemma resolved_params_nth:
  "length ids = length rs \<Longrightarrow> i < length rs \<Longrightarrow>
     resolved_params rs ids ! i = \<lparr>params_type = reviewer_type (rs ! i), params_id = ids ! i\<rparr>"
proof (induction rs ids arbitrary: i rule: resolved_params.induct)
  case (1 rv rs j ids)
  then show ?case by (cases i) auto
qed auto

lemma length_resolved_params:
  "length ids = length rs \<Longrightarrow> length (resolved_params rs ids) = length rs"
  by (induction rs ids rule: resolved_params.induct) auto

lemma integer_ids_unchanged_nth:
  "length ids = length rs \<Longrightarrow> integer_ids_unchanged rs ids \<Longrightarrow> i < length rs \<Longrightarrow>
     reviewer_id (rs ! i) = UserId k \<Longrightarrow> ids ! i = k"
proof (induction rs ids arbitrary: i rule: integer_ids_unchanged.induct)
  case (1 rv rs j ids)
  then show ?case by (cases i) auto
qed auto

lemma lookup_events_nth:
  "length ids = length rs \<Longrightarrow> i < length rs \<Longrightarrow> reviewer_id (rs ! i) = Username login \<Longrightarrow>
     GetUser login (Inr (ids ! i)) \<in> set (lookup_events rs ids)"
proof (induction rs ids arbitrary: i rule: lookup_events.induct)
  case (1 rv rs j ids)
  then show ?case by (cases i) (auto split: reviewer_ident.splits)
qed auto

text \<open>
  C6. Whenever the create-or-update call of an upsert is sent, the configuration has a
  reviewer list, the call is the last call of the upsert and carries one parameter for
  each reviewer, with the reviewer's type; for a reviewer given by a number the id sent
  is that number, and for a reviewer given by a user name the id sent is the answer of a
  user lookup for that name, made before the call.
\<close>

theorem reviewer_ids_resolved_before_upsert:
  assumes run: "create_deployment_environment r n c (s, []) = (res, (s', evs))"
    and sent: "CreateEnvironment n' t ps bp x \<in> set evs"
  shows "\<exists>rs. required_reviewers c = Some rs \<and> length ps = length rs
           \<and> last evs = CreateEnvironment n' t ps bp x
           \<and> (\<forall>i < length rs.
                 params_type (ps ! i) = reviewer_type (rs ! i) \<and>
                 (case reviewer_id (rs ! i) of
                    UserId k \<Rightarrow> params_id (ps ! i) = k
                  | Username login \<Rightarrow>
                      GetUser login (Inr (params_id (ps ! i))) \<in> set (butlast evs)))"
proof -
  from create_deployment_environment_cases [OF run] sent
  obtain rs ids where
    h: "required_reviewers c = Some rs" "length ids = length rs" "integer_ids_unchanged rs ids"
       "evs = lookup_events rs ids @
          [CreateEnvironment n (get_default (wait_timer c) 5) (resolved_params rs ids)
             (deployment_branch_policy_params c) res]"
    by fastforce
  from sent h(4) have eq: "CreateEnvironment n' t ps bp x =
      CreateEnvironment n (get_default (wait_timer c) 5) (resolved_params rs ids)
             (deployment_branch_policy_params c) res"
    using lookup_events_are_lookups by fastforce
  then have ps: "ps = resolved_params rs ids" by simp
  have bl: "butlast evs = lookup_events rs ids" using h(4) by simp
  have la: "last evs = CreateEnvironment n' t ps bp x" using h(4) eq by simp
  have "params_type (ps ! i) = reviewer_type (rs ! i) \<and>
                 (case reviewer_id (rs ! i) of
                    UserId k \<Rightarrow> params_id (ps ! i) = k
                  | Username login \<Rightarrow>
                      GetUser login (Inr (params_id (ps ! i))) \<in> set (butlast evs))"
    if "i < length rs" for i
    using that h(2,3) resolved_params_nth [OF h(2) that] integer_ids_unchanged_nth [OF h(2,3) that]
      lookup_events_nth [OF h(2) that]
    by (simp add: ps bl split: reviewer_ident.splits)
  with h(1) la ps length_resolved_params [OF h(2)] show ?thesis by auto
qed

lemma example_upsert_events:
  "snd (snd example_upsert) =
     [GetUser ''alice'' (Inr 42),
      CreateEnvironment ''B'' 5
        [\<lparr>params_type = ''User'', params_id = 42\<rparr>, \<lparr>params_type = ''User'', params_id = 7\<rparr>]
        \<lparr>params_protected_branches = True, params_custom_branch_policies = False\<rparr> (Inr ())]"
  unfolding example_upsert_def by code_simp

theorem reviewer_ids_resolved_before_upsert_witness:
  "\<exists>rs. required_reviewers config_plain = Some rs
     \<and> length [\<lparr>params_type = ''User'', params_id = 42\<rparr>, \<lparr>params_type = ''User'', params_id = 7\<rparr>]
         = length rs
     \<and> last (snd (snd example_upsert)) =
         CreateEnvironment ''B'' 5
           [\<lparr>params_type = ''User'', params_id = 42\<rparr>, \<lparr>params_type = ''User'', params_id = 7\<rparr>]
           \<lparr>params_protected_branches = True, params_custom_branch_policies = False\<rparr> (Inr ())
     \<and> (\<forall>i < length rs.
           params_type ([\<lparr>params_type = ''User'', params_id = 42\<rparr>,
                         \<lparr>params_type = ''User'', params_id = 7\<rparr>] ! i) = reviewer_type (rs ! i) \<and>
           (case reviewer_id (rs ! i) of
              UserId k \<Rightarrow>
                params_id ([\<lparr>params_type = ''User'', params_id = 42\<rparr>,
                            \<lparr>params_type = ''User'', params_id = 7\<rparr>] ! i) = k
            | Username login \<Rightarrow>
                GetUser login
                  (Inr (params_id ([\<lparr>params_type = ''User'', params_id = 42\<rparr>,
                                    \<lparr>params_type = ''User'', params_id = 7\<rparr>] ! i)))
                  \<in> set (butlast (snd (snd example_upsert)))))"
proof -
  have run: "create_deployment_environment reference_remote ''B'' config_plain (example_github, [])
      = (fst example_upsert, fst (snd example_upsert), snd (snd example_upsert))"
    by (simp add: example_upsert_def)
  have sent: "CreateEnvironment ''B'' 5
           [\<lparr>params_type = ''User'', params_id = 42\<rparr>, \<lparr>params_type = ''User'', params_id = 7\<rparr>]
           \<lparr>params_protected_branches = True, params_custom_branch_policies = False\<rparr> (Inr ())
         \<in> set (snd (snd example_upsert))"
    by (simp add: example_upsert_events)
  from reviewer_ids_resolved_before_upsert [OF run sent] show ?thesis .
qed

section \<open>Branch policy upsert\<close>





section \<open>Validation before any call\<close>




end
